theory Spec2Isabelle
  imports
    Main
    "HOL-Library.AList"
    "HOL-Library.Sublist"
    "HOL-Library.Char_ord"
    "HOL-Library.List_Lexorder"
    "HOL-Library.Word"
begin

section \<open>The cache server of \<^verbatim>\<open>src/main.js\<close>\<close>

text \<open>
  The server answers one HTTP request at a time from a cache directory of JPEG files
  named \<^verbatim>\<open><code>.jpg\<close>; a GET that misses the cache asks \<^verbatim>\<open>https://http.cat\<close> and
  stores the answer. The model below follows the request handler of \<^verbatim>\<open>main.js\<close>
  (lines 49 to 144) branch by branch. The handler is a function from a request and the
  state of the world to a response and the new state; what the operating system and the
  network decide (whether a write is accepted, what the origin answers) is an explicit
  argument \<open>env\<close>.
\<close>

subsection \<open>Data\<close>

type_synonym byte = "8 word"
type_synonym blob = "byte list"

text \<open>
  An absolute path is the list of its segments below the file system root, so
  \<^verbatim>\<open>/srv/cache/200.jpg\<close> is \<open>[''srv'', ''cache'', ''200.jpg'']\<close>.
\<close>

type_synonym path = "string list"

text \<open>The options of the command line, and \<^verbatim>\<open>CACHE_DIR = path.resolve(cache)\<close>.\<close>

record config =
  host :: string
  port :: nat
  CACHE_DIR :: path

text \<open>
  A request, as the handler reads it from line 53 on: \<^verbatim>\<open>req.method\<close>, the constant
  \<^verbatim>\<open>pathname\<close> of line 51 (decoded; how it is computed from the request target is
  modelled further down) and the chunks of the body that the \<^verbatim>\<open>data\<close> events deliver
  before \<^verbatim>\<open>end\<close>.
\<close>

record request =
  http_method :: string
  pathname :: string
  chunks :: "blob list"

datatype jvalue = JBool bool | JString string | JNumber nat

text \<open>
  What \<^verbatim>\<open>res.end\<close> is given: nothing, a string, a buffer, \<^verbatim>\<open>JSON.stringify\<close> of an object
  (its fields in order), or the index page, which is the template of lines 65 to 70
  filled with the host, the port, the cache directory and the file names.
\<close>

datatype payload =
    No_body
  | Text string
  | Buffer blob
  | Json "(string \<times> jvalue) list"
  | Index_page string nat path "string list"

record response =
  status :: nat
  headers :: "(string \<times> string) list"
  body :: payload

text \<open>
  The world: the regular files that the process can read, as an association
  list from path to content (\<open>map_of\<close> is the lookup), and the log of the URLs requested
  from the origin.
\<close>

record world =
  files :: "(path \<times> blob) list"
  fetches :: "string list"

text \<open>
  How \<^verbatim>\<open>fsp.writeFile\<close> ends. It opens the file truncating it and then writes: it
  resolves, or rejects before the file is opened, or rejects after the file was truncated
  and some bytes were written.
\<close>

datatype write_result = Written | Write_refused | Write_torn nat

text \<open>
  The answers of the environment during one request: the origin (the body of a 2xx
  answer, or \<open>None\<close> when \<^verbatim>\<open>superagent\<close> rejects), whether \<^verbatim>\<open>fsp.mkdir\<close> resolves, how
  \<^verbatim>\<open>fsp.writeFile\<close> ends, whether \<^verbatim>\<open>fsp.readdir\<close> resolves, and whether \<^verbatim>\<open>fsp.unlink\<close>
  of a file that is there resolves (it rejects on a read-only file system or without the
  permission to change the directory).
\<close>

record env =
  origin :: "string \<Rightarrow> blob option"
  mkdir_ok :: bool
  writeFile_result :: write_result
  readdir_ok :: bool
  unlink_ok :: bool

subsection \<open>The two regular expressions\<close>

text \<open>
  \<^verbatim>\<open>\d\<close> is an ASCII digit; without the \<^verbatim>\<open>m\<close> flag \<^verbatim>\<open>^\<close> and \<^verbatim>\<open>$\<close> are the two ends of
  the string.
\<close>

definition digit :: "char \<Rightarrow> bool" where
  "digit c = (c \<in> set ''0123456789'')"

text \<open>\<^verbatim>\<open>\d{n}$\<close> matched at the start of \<open>s\<close>.\<close>

fun digits_then_end :: "nat \<Rightarrow> string \<Rightarrow> bool" where
  "digits_then_end 0 s = (s = [])"
| "digits_then_end (Suc n) [] = False"
| "digits_then_end (Suc n) (c # cs) = (digit c \<and> digits_then_end n cs)"

text \<open>\<^verbatim>\<open>const codeRegex = /^\d{3}$/\<close>\<close>

definition codeRegex :: "string \<Rightarrow> bool" where
  "codeRegex s = digits_then_end 3 s"

text \<open>\<^verbatim>\<open>/^\/\d{3}$/\<close>, the test of the route at line 75.\<close>

definition routeRegex :: "string \<Rightarrow> bool" where
  "routeRegex s = (case s of [] \<Rightarrow> False | c # cs \<Rightarrow> c = CHR ''/'' \<and> digits_then_end 3 cs)"

subsection \<open>Paths\<close>

text \<open>
  \<^verbatim>\<open>path.join\<close> of Node (POSIX) joins its arguments with \<^verbatim>\<open>/\<close> and normalises the
  result: empty segments and \<^verbatim>\<open>.\<close> are dropped and \<^verbatim>\<open>..\<close> removes the segment before
  it (nothing, at the root). The first argument is \<^verbatim>\<open>CACHE_DIR\<close>, an absolute path that
  \<^verbatim>\<open>path.resolve\<close> has normalised already, so the join walks from it through the
  segments of the second argument. \<open>segments\<close> is \<^verbatim>\<open>s.split('/')\<close>.
\<close>

primrec segments :: "string \<Rightarrow> string list" where
  "segments [] = [[]]"
| "segments (c # cs) =
     (if c = CHR ''/'' then [] # segments cs
      else (case segments cs of [] \<Rightarrow> [[c]] | s # ss \<Rightarrow> (c # s) # ss))"

definition enter :: "path \<Rightarrow> string \<Rightarrow> path" where
  "enter p s =
     (if s = [] \<or> s = ''.'' then p
      else if s = ''..'' then butlast p
      else p @ [s])"

definition path_join :: "path \<Rightarrow> string \<Rightarrow> path" where
  "path_join dir name = foldl enter dir (segments name)"

text \<open>\<^verbatim>\<open>const fileForCode = (code) => path.join(CACHE_DIR, `${code}.jpg`)\<close>\<close>

definition fileForCode :: "config \<Rightarrow> string \<Rightarrow> path" where
  "fileForCode cfg code = path_join (CACHE_DIR cfg) (code @ ''.jpg'')"

text \<open>\<^verbatim>\<open>const HTTP_CAT_URL = (code) => `https://http.cat/${code}.jpg`\<close>\<close>

definition HTTP_CAT_URL :: "string \<Rightarrow> string" where
  "HTTP_CAT_URL code = ''https://http.cat/'' @ code @ ''.jpg''"

subsection \<open>The file system and the origin\<close>

text \<open>\<^verbatim>\<open>fsp.readFile\<close> resolves with the content of a file that is there, and rejects otherwise.\<close>

definition readFile :: "world \<Rightarrow> path \<Rightarrow> blob option" where
  "readFile w p = map_of (files w) p"

text \<open>\<^verbatim>\<open>fsp.writeFile\<close>: whether it resolved, and the world it leaves.\<close>

definition writeFile :: "env \<Rightarrow> path \<Rightarrow> blob \<Rightarrow> world \<Rightarrow> bool \<times> world" where
  "writeFile e p b w =
     (case writeFile_result e of
        Written \<Rightarrow> (True, w\<lparr>files := AList.update p b (files w)\<rparr>)
      | Write_refused \<Rightarrow> (False, w)
      | Write_torn n \<Rightarrow> (False, w\<lparr>files := AList.update p (take n b) (files w)\<rparr>))"

text \<open>
  \<^verbatim>\<open>fsp.unlink\<close>: whether it resolved, and the world it leaves. It rejects when the file
  is not there, and when the environment refuses the removal; the file is then left.
\<close>

definition unlink :: "env \<Rightarrow> path \<Rightarrow> world \<Rightarrow> bool \<times> world" where
  "unlink e p w =
     (case map_of (files w) p of
        None \<Rightarrow> (False, w)
      | Some b \<Rightarrow>
          if unlink_ok e then (True, w\<lparr>files := AList.delete p (files w)\<rparr>)
          else (False, w))"

text \<open>The request to the origin: its answer, and the world with the request logged.\<close>

definition superagent_get :: "env \<Rightarrow> string \<Rightarrow> world \<Rightarrow> blob option \<times> world" where
  "superagent_get e url w = (origin e url, w\<lparr>fetches := fetches w @ [url]\<rparr>)"

text \<open>
  \<^verbatim>\<open>listCacheFiles\<close>: the names of the files of the cache directory, sorted; the empty
  list when \<^verbatim>\<open>readdir\<close> rejects. A directory holds a name once.
\<close>

definition listCacheFiles :: "config \<Rightarrow> env \<Rightarrow> world \<Rightarrow> string list" where
  "listCacheFiles cfg e w =
     (if readdir_ok e
      then sort (remdups (map last
             (filter (\<lambda>p. p \<noteq> [] \<and> butlast p = CACHE_DIR cfg) (map fst (files w)))))
      else [])"

subsection \<open>Responses\<close>

text \<open>The three headers set at lines 53 to 55 on every response.\<close>

definition cors :: "(string \<times> string) list" where
  "cors =
     [(''Access-Control-Allow-Origin'', ''*''),
      (''Access-Control-Allow-Methods'', ''GET,PUT,DELETE,OPTIONS''),
      (''Access-Control-Allow-Headers'', ''Content-Type'')]"

definition respond :: "nat \<Rightarrow> string \<Rightarrow> payload \<Rightarrow> response" where
  "respond st ctype b = \<lparr>status = st, headers = cors @ [(''Content-Type'', ctype)], body = b\<rparr>"

definition json_response :: "nat \<Rightarrow> (string \<times> jvalue) list \<Rightarrow> response" where
  "json_response st obj = respond st ''application/json; charset=utf-8'' (Json obj)"

definition image_response :: "blob \<Rightarrow> response" where
  "image_response buf = respond 200 ''image/jpeg'' (Buffer buf)"

subsection \<open>The request handler\<close>

text \<open>Lines 83 to 107: the cache first, then the origin and the write-back, in one \<^verbatim>\<open>try\<close>.\<close>

definition handle_get :: "env \<Rightarrow> string \<Rightarrow> path \<Rightarrow> world \<Rightarrow> response \<times> world" where
  "handle_get e code filePath w =
     (case readFile w filePath of
        Some buf \<Rightarrow> (image_response buf, w)
      | None \<Rightarrow>
          (case superagent_get e (HTTP_CAT_URL code) w of
             (None, w1) \<Rightarrow>
               (json_response 404 [(''error'', JString ''not found (cache and http.cat failed)'')], w1)
           | (Some b, w1) \<Rightarrow>
               if \<not> mkdir_ok e
               then (json_response 404
                       [(''error'', JString ''not found (cache and http.cat failed)'')], w1)
               else (case writeFile e filePath b w1 of
                       (False, w2) \<Rightarrow>
                         (json_response 404
                            [(''error'', JString ''not found (cache and http.cat failed)'')], w2)
                     | (True, w2) \<Rightarrow> (image_response b, w2))))"

text \<open>Lines 109 to 125, at the \<^verbatim>\<open>end\<close> event of the request.\<close>

definition handle_put :: "env \<Rightarrow> string \<Rightarrow> path \<Rightarrow> blob list \<Rightarrow> world \<Rightarrow> response \<times> world" where
  "handle_put e code filePath cs w =
     (let b = concat cs in
      if \<not> mkdir_ok e
      then (json_response 500 [(''error'', JString ''write failed'')], w)
      else (case writeFile e filePath b w of
              (False, w1) \<Rightarrow> (json_response 500 [(''error'', JString ''write failed'')], w1)
            | (True, w1) \<Rightarrow>
                (json_response 201
                   [(''ok'', JBool True), (''saved'', JString (code @ ''.jpg'')),
                    (''bytes'', JNumber (length b))], w1)))"

text \<open>Lines 127 to 136.\<close>

definition handle_delete :: "env \<Rightarrow> string \<Rightarrow> path \<Rightarrow> world \<Rightarrow> response \<times> world" where
  "handle_delete e code filePath w =
     (case unlink e filePath w of
        (True, w1) \<Rightarrow>
          (json_response 200 [(''ok'', JBool True), (''deleted'', JString (code @ ''.jpg''))], w1)
      | (False, w1) \<Rightarrow> (json_response 404 [(''error'', JString ''not found'')], w1))"

text \<open>
  The callback of \<^verbatim>\<open>http.createServer\<close> from line 53 to line 143, for the pathname that
  lines 50 and 51 have computed.
\<close>

definition server :: "config \<Rightarrow> env \<Rightarrow> request \<Rightarrow> world \<Rightarrow> response \<times> world" where
  "server cfg e req w =
     (if http_method req = ''OPTIONS'' then (\<lparr>status = 204, headers = cors, body = No_body\<rparr>, w)
      else if http_method req = ''GET'' \<and> pathname req = ''/health''
      then (respond 200 ''text/plain; charset=utf-8'' (Text ''OK''), w)
      else if http_method req = ''GET'' \<and> pathname req = ''/''
      then (respond 200 ''text/html; charset=utf-8''
              (Index_page (host cfg) (port cfg) (CACHE_DIR cfg) (listCacheFiles cfg e w)), w)
      else if routeRegex (pathname req)
      then (let code = drop 1 (pathname req) in
            if \<not> codeRegex code
            then (json_response 400 [(''error'', JString ''bad code'')], w)
            else (let filePath = fileForCode cfg code in
                  if http_method req = ''GET'' then handle_get e code filePath w
                  else if http_method req = ''PUT'' then handle_put e code filePath (chunks req) w
                  else if http_method req = ''DELETE'' then handle_delete e code filePath w
                  else (json_response 405 [(''error'', JString ''method not allowed'')], w)))
      else (json_response 404 [(''error'', JString ''not found'')], w))"

subsection \<open>From the request target to the pathname\<close>

text \<open>
  Lines 50 and 51: \<^verbatim>\<open>decodeURIComponent(parsed.pathname || '/')\<close>. What arrives is
  \<^verbatim>\<open>req.method\<close>, the \<^verbatim>\<open>pathname\<close> that \<^verbatim>\<open>parseUrl(req.url || '/', true)\<close> returns
  (\<open>None\<close> for \<^verbatim>\<open>null\<close>; the parser leaves percent escapes as they are) and the chunks of
  the body.
\<close>

record incoming_message =
  req_method :: string
  url_pathname :: "string option"
  req_chunks :: "blob list"

datatype js_error = URIError

text \<open>
  \<^verbatim>\<open>decodeURIComponent\<close>, after the algorithm Decode of ECMAScript. A character other than
  \<^verbatim>\<open>%\<close> is copied. A \<^verbatim>\<open>%\<close> must be followed by two hexadecimal digits, which give a
  byte; a byte below 128 is the character. A byte from 128 on must be the first of a
  UTF-8 sequence whose other bytes follow as escapes of their own, and the sequence must
  be the encoding of a code point; everything else throws \<^verbatim>\<open>URIError\<close>. A string stands
  here for the bytes of its UTF-8 encoding, so a decoded code point above 127 is the bytes
  of its escapes.
\<close>

definition hex_value :: "char \<Rightarrow> nat option" where
  "hex_value c =
     (let n = (of_char c :: nat) in
      if 48 \<le> n \<and> n \<le> 57 then Some (n - 48)
      else if 65 \<le> n \<and> n \<le> 70 then Some (n - 55)
      else if 97 \<le> n \<and> n \<le> 102 then Some (n - 87)
      else None)"

text \<open>The byte of the escape \<^verbatim>\<open>%XX\<close> at the start of \<open>s\<close>, and what follows it.\<close>

definition escape :: "string \<Rightarrow> (nat \<times> string) option" where
  "escape s =
     (case s of
        p # h # l # rest \<Rightarrow>
          (if p = CHR ''%''
           then (case hex_value h of
                   None \<Rightarrow> None
                 | Some a \<Rightarrow>
                     (case hex_value l of None \<Rightarrow> None | Some b \<Rightarrow> Some (16 * a + b, rest)))
           else None)
      | _ \<Rightarrow> None)"

text \<open>
  The number of bytes that follow the first byte \<open>b\<close> of a UTF-8 sequence: one less than
  the number of its leading 1 bits, and 0 when that number is 1 or more than 4.
\<close>

definition following :: "nat \<Rightarrow> nat" where
  "following b =
     (if 192 \<le> b \<and> b < 224 then 1
      else if 224 \<le> b \<and> b < 240 then 2
      else if 240 \<le> b \<and> b < 248 then 3
      else 0)"

text \<open>\<open>n\<close> escapes, each a byte of the form \<^verbatim>\<open>10xxxxxx\<close>.\<close>

fun continuation :: "nat \<Rightarrow> string \<Rightarrow> (nat list \<times> string) option" where
  "continuation 0 s = Some ([], s)"
| "continuation (Suc n) s =
     (case escape s of
        None \<Rightarrow> None
      | Some (b, r) \<Rightarrow>
          if 128 \<le> b \<and> b < 192
          then (case continuation n r of None \<Rightarrow> None | Some (bs, r') \<Rightarrow> Some (b # bs, r'))
          else None)"

text \<open>
  Whether the first byte \<open>b\<close> and the continuation bytes \<open>bs\<close> encode a code point: no
  overlong form, no surrogate, nothing above U+10FFFF.
\<close>

definition well_formed :: "nat \<Rightarrow> nat list \<Rightarrow> bool" where
  "well_formed b bs =
     (case bs of
        [c1] \<Rightarrow> 194 \<le> b
      | [c1, c2] \<Rightarrow>
          (b = 224 \<and> 160 \<le> c1) \<or> (225 \<le> b \<and> b \<le> 236) \<or> (b = 237 \<and> c1 < 160) \<or> 238 \<le> b
      | [c1, c2, c3] \<Rightarrow>
          (b = 240 \<and> 144 \<le> c1) \<or> (241 \<le> b \<and> b \<le> 243) \<or> (b = 244 \<and> c1 < 144)
      | _ \<Rightarrow> False)"

fun prepend :: "string \<Rightarrow> js_error + string \<Rightarrow> js_error + string" where
  "prepend s (Inl err) = Inl err"
| "prepend s (Inr t) = Inr (s @ t)"

function decodeURIComponent :: "string \<Rightarrow> js_error + string" where
  "decodeURIComponent [] = Inr []"
| "decodeURIComponent (c # cs) =
     (if c \<noteq> CHR ''%'' then prepend [c] (decodeURIComponent cs)
      else (case escape (c # cs) of
              None \<Rightarrow> Inl URIError
            | Some (b, r) \<Rightarrow>
                if b < 128 then prepend [char_of b] (decodeURIComponent r)
                else if following b = 0 then Inl URIError
                else (case continuation (following b) r of
                        None \<Rightarrow> Inl URIError
                      | Some (bs, r') \<Rightarrow>
                          if well_formed b bs
                          then prepend (map char_of (b # bs)) (decodeURIComponent r')
                          else Inl URIError)))"
  by pat_completeness auto
termination
proof (relation "measure length")
  have esc: "length r < length s" if "escape s = Some (b, r)" for s b r
    using that by (auto simp: escape_def split: list.splits if_splits option.splits)
  have cont: "length r \<le> length s" if "continuation n s = Some (bs, r)" for n s bs r
    using that
  proof (induction n arbitrary: s bs)
    case 0
    then show ?case by simp
  next
    case (Suc n)
    then show ?case
      by (fastforce split: option.splits prod.splits if_splits dest: esc)
  qed
  show "wf (measure length)"
    by simp
  show "(cs, c # cs) \<in> measure length" for c :: char and cs
    by simp
  show "(r, c # cs) \<in> measure length"
    if "escape (c # cs) = Some x" and "(b, r) = x" for c cs x b r
    using that esc[of "c # cs" b r] by simp
  show "(r', c # cs) \<in> measure length"
    if "escape (c # cs) = Some x" and "(b, r) = x"
      and "continuation (following b) r = Some y" and "(bs, r') = y"
    for c cs x b r y bs r'
    using that esc[of "c # cs" b r] cont[of "following b" r bs r'] by simp
qed

text \<open>
  The whole callback, lines 49 to 144. When \<^verbatim>\<open>decodeURIComponent\<close> throws, the promise of
  the \<^verbatim>\<open>async\<close> callback rejects before a header is set: nothing is answered and the
  world is as it was.
\<close>

definition request_listener ::
  "config \<Rightarrow> env \<Rightarrow> incoming_message \<Rightarrow> world \<Rightarrow> (js_error + response) \<times> world" where
  "request_listener cfg e req w =
     (case decodeURIComponent
             (case url_pathname req of None \<Rightarrow> ''/'' | Some p \<Rightarrow> if p = [] then ''/'' else p) of
        Inl err \<Rightarrow> (Inl err, w)
      | Inr p \<Rightarrow>
          (case server cfg e
                  \<lparr>http_method = req_method req, pathname = p, chunks = req_chunks req\<rparr> w of
             (r, w1) \<Rightarrow> (Inr r, w1)))"

subsection \<open>Requests and sequences of requests\<close>

definition get_request :: "string \<Rightarrow> request" where
  "get_request k = \<lparr>http_method = ''GET'', pathname = CHR ''/'' # k, chunks = []\<rparr>"


definition delete_request :: "string \<Rightarrow> request" where
  "delete_request k = \<lparr>http_method = ''DELETE'', pathname = CHR ''/'' # k, chunks = []\<rparr>"

text \<open>A request as it arrives, with the pathname that the parser found in its target.\<close>

definition incoming :: "string \<Rightarrow> string \<Rightarrow> blob list \<Rightarrow> incoming_message" where
  "incoming m p cs = \<lparr>req_method = m, url_pathname = Some p, req_chunks = cs\<rparr>"



subsection \<open>A configuration, four environments and two worlds to run the handler on\<close>

definition example_config :: config where
  "example_config = \<lparr>host = ''127.0.0.1'', port = 3000, CACHE_DIR = [''srv'', ''cache'']\<rparr>"

text \<open>The origin answers nothing; the disk accepts every write.\<close>

definition origin_down :: env where
  "origin_down =
     \<lparr>origin = (\<lambda>url. None), mkdir_ok = True, writeFile_result = Written,
      readdir_ok = True, unlink_ok = True\<rparr>"

text \<open>The origin has the picture of status 200; the disk accepts every write.\<close>

definition origin_up :: env where
  "origin_up =
     \<lparr>origin = (\<lambda>url. if url = ''https://http.cat/200.jpg'' then Some [1, 2, 3] else None),
      mkdir_ok = True, writeFile_result = Written, readdir_ok = True, unlink_ok = True\<rparr>"

text \<open>
  The origin has the picture; the disk is read-only: it refuses the write and the removal
  of a file.
\<close>

definition disk_read_only :: env where
  "disk_read_only = origin_up\<lparr>writeFile_result := Write_refused, unlink_ok := False\<rparr>"


definition empty_world :: world where
  "empty_world = \<lparr>files = [], fetches = []\<rparr>"

definition stocked_world :: world where
  "stocked_world = \<lparr>files = [([''srv'', ''cache'', ''200.jpg''], [7, 8])], fetches = []\<rparr>"

subsection \<open>The regular expressions and the path of a code\<close>

lemma digit_not_slash: "digit c \<Longrightarrow> c \<noteq> CHR ''/''"
  by (auto simp: digit_def)

lemma digits_then_end_length: "digits_then_end n s \<Longrightarrow> length s = n"
  by (induction n s rule: digits_then_end.induct) auto

lemma digits_then_end_digits: "digits_then_end n s \<Longrightarrow> list_all digit s"
  by (induction n s rule: digits_then_end.induct) auto

lemma segments_no_slash: "CHR ''/'' \<notin> set s \<Longrightarrow> segments s = [s]"
  by (induction s) auto

lemma codeRegex_no_slash: "codeRegex k \<Longrightarrow> CHR ''/'' \<notin> set k"
  using digits_then_end_digits[of 3 k] digit_not_slash
  by (auto simp: codeRegex_def list_all_iff)

lemma codeRegex_length: "codeRegex k \<Longrightarrow> length k = 3"
  using digits_then_end_length by (simp add: codeRegex_def)

lemma fileForCode_valid:
  assumes k: "codeRegex k"
  shows "fileForCode cfg k = CACHE_DIR cfg @ [k @ ''.jpg'']"
proof -
  have "CHR ''/'' \<notin> set (k @ ''.jpg'')"
    using codeRegex_no_slash[OF k] by simp
  then have seg: "segments (k @ ''.jpg'') = [k @ ''.jpg'']"
    by (rule segments_no_slash)
  have len: "length (k @ ''.jpg'') = 7"
    using codeRegex_length[OF k] by simp
  have "k @ ''.jpg'' \<noteq> []" "k @ ''.jpg'' \<noteq> ''.''" "k @ ''.jpg'' \<noteq> ''..''"
    using len by auto
  then show ?thesis
    by (simp add: fileForCode_def path_join_def seg enter_def)
qed

lemma route_code: "routeRegex p \<Longrightarrow> codeRegex (drop 1 p)"
  by (cases p) (auto simp: routeRegex_def codeRegex_def)

lemma route_iff: "routeRegex (CHR ''/'' # k) = codeRegex k"
  by (simp add: routeRegex_def codeRegex_def)

lemma route_length: "routeRegex p \<Longrightarrow> length p = 4"
  using digits_then_end_length[of 3] by (cases p) (auto simp: routeRegex_def)

lemma route_not_fixed: "routeRegex p \<Longrightarrow> p \<noteq> ''/health'' \<and> p \<noteq> ''/''"
  using route_length[of p] by auto

subsection \<open>The handler on a routed request\<close>

lemma server_routed:
  assumes "routeRegex (pathname req)" and "http_method req \<noteq> ''OPTIONS''"
  shows "server cfg e req w =
     (let code = drop 1 (pathname req); filePath = fileForCode cfg code in
      if http_method req = ''GET'' then handle_get e code filePath w
      else if http_method req = ''PUT'' then handle_put e code filePath (chunks req) w
      else if http_method req = ''DELETE'' then handle_delete e code filePath w
      else (json_response 405 [(''error'', JString ''method not allowed'')], w))"
  using assms route_code[of "pathname req"] route_not_fixed[of "pathname req"]
  by (simp add: server_def Let_def)

lemma server_get:
  "codeRegex k \<Longrightarrow> server cfg e (get_request k) w = handle_get e k (fileForCode cfg k) w"
  using server_routed[of "get_request k" cfg e w]
  by (simp add: get_request_def route_iff)


lemma server_delete:
  "codeRegex k \<Longrightarrow>
   server cfg e (delete_request k) w = handle_delete e k (fileForCode cfg k) w"
  using server_routed[of "delete_request k" cfg e w]
  by (simp add: delete_request_def route_iff)

lemma get_hit:
  "codeRegex k \<Longrightarrow> readFile w (fileForCode cfg k) = Some b \<Longrightarrow>
   server cfg e (get_request k) w = (image_response b, w)"
  by (simp add: server_get handle_get_def)

lemma status_json [simp]: "status (json_response st obj) = st"
  by (simp add: json_response_def respond_def)

lemma body_json [simp]: "body (json_response st obj) = Json obj"
  by (simp add: json_response_def respond_def)

lemma status_image [simp]: "status (image_response b) = 200"
  by (simp add: image_response_def respond_def)

lemma body_image [simp]: "body (image_response b) = Buffer b"
  by (simp add: image_response_def respond_def)



subsection \<open>The example inputs\<close>

lemma valid_200: "codeRegex ''200''"
  by (simp add: codeRegex_def digit_def numeral_3_eq_3)


lemma path_200: "fileForCode example_config ''200'' = [''srv'', ''cache'', ''200.jpg'']"
  by (simp add: fileForCode_valid valid_200 example_config_def)


lemma url_200: "HTTP_CAT_URL ''200'' = ''https://http.cat/200.jpg''"
  by (simp add: HTTP_CAT_URL_def)

subsection \<open>The callback on the request target\<close>

lemma decode_plain: "CHR ''%'' \<notin> set s \<Longrightarrow> decodeURIComponent s = Inr s"
  by (induction s) auto

lemma digit_not_percent: "digit c \<Longrightarrow> c \<noteq> CHR ''%''"
  by (auto simp: digit_def)

lemma codeRegex_no_percent: "codeRegex k \<Longrightarrow> CHR ''%'' \<notin> set k"
  using digits_then_end_digits[of 3 k] digit_not_percent
  by (auto simp: codeRegex_def list_all_iff)

lemma listener_decoded:
  assumes "decodeURIComponent p = Inr q" and "p \<noteq> []"
  shows "request_listener cfg e (incoming m p cs) w =
           (case server cfg e \<lparr>http_method = m, pathname = q, chunks = cs\<rparr> w of
              (r, w1) \<Rightarrow> (Inr r, w1))"
  using assms by (simp add: request_listener_def incoming_def)

lemma listener_on_code:
  assumes "codeRegex k"
  shows "request_listener cfg e (incoming m (CHR ''/'' # k) cs) w =
           (case server cfg e \<lparr>http_method = m, pathname = CHR ''/'' # k, chunks = cs\<rparr> w of
              (r, w1) \<Rightarrow> (Inr r, w1))"
proof -
  have "decodeURIComponent (CHR ''/'' # k) = Inr (CHR ''/'' # k)"
    using codeRegex_no_percent[OF assms] by (intro decode_plain) simp
  then show ?thesis
    by (rule listener_decoded) simp
qed

lemma malformed_escape_throws:
  "request_listener cfg e (incoming m ''/%zz'' cs) w = (Inl URIError, w)"
  by (simp add: request_listener_def incoming_def escape_def hex_value_def)

lemma decode_escaped_200: "decodeURIComponent ''/%32%30%30'' = Inr ''/200''"
  by code_simp

lemma escaped_key_is_served:
  "\<not> codeRegex ''%32%30%30''
   \<and> request_listener example_config origin_down (incoming ''GET'' ''/%32%30%30'' [])
        stocked_world
       = (Inr (image_response [7, 8]), stocked_world)"
proof -
  have "server example_config origin_down (get_request ''200'') stocked_world
          = (image_response [7, 8], stocked_world)"
    by (rule get_hit[OF valid_200]) (simp add: path_200 readFile_def stocked_world_def)
  then show ?thesis
    using listener_decoded[OF decode_escaped_200, of example_config origin_down "''GET''" "[]"
        stocked_world]
    by (simp add: get_request_def codeRegex_def digit_def numeral_3_eq_3)
qed

subsection \<open>Claims\<close>

text \<open>
  C9. The mapping from a key to its storage path is a function, and on the keys that match
  \<^verbatim>\<open>^\d{3}$\<close> it yields exactly the cache root followed by the one segment
  \<^verbatim>\<open><key>.jpg\<close>: the root is a proper prefix of the path, so the path is strictly
  inside the root and cannot escape it, and two keys have the same path only when they
  are the same key.
\<close>

theorem fileForCode_inside_injective:
  assumes "codeRegex k" and "codeRegex k'"
  shows "fileForCode cfg k = CACHE_DIR cfg @ [k @ ''.jpg'']
       \<and> strict_prefix (CACHE_DIR cfg) (fileForCode cfg k)
       \<and> (fileForCode cfg k = fileForCode cfg k') = (k = k')"
  using assms by (simp add: fileForCode_valid strict_prefix_def)

theorem fileForCode_inside_injective_witness:
  "codeRegex ''200'' \<and> codeRegex ''404''
   \<and> fileForCode example_config ''200'' = [''srv'', ''cache'', ''200.jpg'']
   \<and> strict_prefix [''srv'', ''cache''] (fileForCode example_config ''200'')
   \<and> fileForCode example_config ''200'' \<noteq> fileForCode example_config ''404''"
proof -
  have a: "codeRegex ''200''" and b: "codeRegex ''404''"
    by (simp_all add: codeRegex_def digit_def numeral_3_eq_3)
  show ?thesis
    using a b fileForCode_inside_injective[OF a b, of example_config]
    by (auto simp: example_config_def)
qed

text \<open>
  C10. The branch answering 400 \<^verbatim>\<open>{error:"bad code"}\<close> is dead: when the pathname passes
  the test of the route, \<^verbatim>\<open>/^\/\d{3}$/\<close>, the code cut from it by \<^verbatim>\<open>slice(1)\<close>
  satisfies \<^verbatim>\<open>codeRegex\<close>, and the response of the server never has status 400 (no other
  branch answers 400).
\<close>

theorem bad_code_unreachable:
  assumes "routeRegex (pathname req)"
  shows "codeRegex (drop 1 (pathname req)) \<and> status (fst (server cfg e req w)) \<noteq> 400"
proof
  show "codeRegex (drop 1 (pathname req))"
    using assms by (rule route_code)
next
  show "status (fst (server cfg e req w)) \<noteq> 400"
  proof (cases "http_method req = ''OPTIONS''")
    case True
    then show ?thesis by (simp add: server_def)
  next
    case False
    show ?thesis
      unfolding server_routed[OF assms False]
      by (simp add: Let_def handle_get_def handle_put_def handle_delete_def
          superagent_get_def split: option.splits prod.splits bool.splits)
  qed
qed

theorem bad_code_unreachable_witness:
  "routeRegex ''/200'' \<and> codeRegex ''200''
   \<and> status (fst (server example_config origin_down (get_request ''200'') empty_world)) = 404"
proof -
  have r: "routeRegex (pathname (get_request ''200''))"
    by (simp add: get_request_def routeRegex_def digit_def numeral_3_eq_3)
  have s: "status (fst (server example_config origin_down (get_request ''200'') empty_world)) = 404"
    by (simp add: server_def get_request_def routeRegex_def codeRegex_def digit_def
        numeral_3_eq_3 handle_get_def readFile_def empty_world_def superagent_get_def
        origin_down_def)
  show ?thesis
    using r s bad_code_unreachable[OF r, of example_config origin_down empty_world]
    by (simp add: get_request_def)
qed

text \<open>
  C3. A GET for a key that matches \<^verbatim>\<open>^\d{3}$\<close> and whose file is in the cache is
  answered 200 with the bytes of the file, and the world is left as it was: in particular
  the log of the requests to the origin is unchanged, so the origin is not consulted.
\<close>

theorem get_hit_serves_cache:
  assumes "codeRegex k" and "readFile w (fileForCode cfg k) = Some b"
  shows "status (fst (server cfg e (get_request k) w)) = 200
       \<and> body (fst (server cfg e (get_request k) w)) = Buffer b
       \<and> fetches (snd (server cfg e (get_request k) w)) = fetches w
       \<and> snd (server cfg e (get_request k) w) = w"
  using assms by (simp add: get_hit)

theorem get_hit_serves_cache_witness:
  "codeRegex ''200''
   \<and> readFile stocked_world (fileForCode example_config ''200'') = Some [7, 8]
   \<and> status (fst (server example_config origin_up (get_request ''200'') stocked_world)) = 200
   \<and> body (fst (server example_config origin_up (get_request ''200'') stocked_world))
       = Buffer [7, 8]
   \<and> fetches (snd (server example_config origin_up (get_request ''200'') stocked_world)) = []"
proof -
  have r: "readFile stocked_world (fileForCode example_config ''200'') = Some [7, 8]"
    by (simp add: path_200 readFile_def stocked_world_def)
  show ?thesis
    using valid_200 r get_hit_serves_cache[OF valid_200 r, of origin_up]
    by (simp add: stocked_world_def)
qed

text \<open>
  C4. A GET for a valid key whose file is not in the cache, when the request to the origin
  fails, is answered 404, and the files of the cache are unchanged: no file is created
  for the key.
\<close>

theorem get_miss_origin_fails:
  assumes "codeRegex k"
      and "readFile w (fileForCode cfg k) = None"
      and "origin e (HTTP_CAT_URL k) = None"
  shows "status (fst (server cfg e (get_request k) w)) = 404
       \<and> body (fst (server cfg e (get_request k) w))
           = Json [(''error'', JString ''not found (cache and http.cat failed)'')]
       \<and> files (snd (server cfg e (get_request k) w)) = files w
       \<and> readFile (snd (server cfg e (get_request k) w)) (fileForCode cfg k) = None"
  using assms
  by (simp add: server_get handle_get_def superagent_get_def readFile_def)

theorem get_miss_origin_fails_witness:
  "codeRegex ''200''
   \<and> readFile empty_world (fileForCode example_config ''200'') = None
   \<and> origin origin_down (HTTP_CAT_URL ''200'') = None
   \<and> status (fst (server example_config origin_down (get_request ''200'') empty_world)) = 404
   \<and> files (snd (server example_config origin_down (get_request ''200'') empty_world)) = []"
proof -
  have r: "readFile empty_world (fileForCode example_config ''200'') = None"
    by (simp add: readFile_def empty_world_def)
  have f: "origin origin_down (HTTP_CAT_URL ''200'') = None"
    by (simp add: origin_down_def)
  show ?thesis
    using valid_200 r f get_miss_origin_fails[OF valid_200 r f]
    by (simp add: empty_world_def)
qed

text \<open>
  C1, as stated, fails. The request to the origin, \<^verbatim>\<open>mkdir\<close> and \<^verbatim>\<open>writeFile\<close> stand in
  one \<^verbatim>\<open>try\<close> block (lines 89 to 105), so a write-back that fails is caught like a
  fetch that fails: with an empty cache, the origin answering the bytes 1, 2, 3 for key
  200 and the disk refusing the write, the response is 404 and not 200.
\<close>

theorem write_back_failure_counterexample:
  "codeRegex ''200''
   \<and> readFile empty_world (fileForCode example_config ''200'') = None
   \<and> origin disk_read_only (HTTP_CAT_URL ''200'') = Some [1, 2, 3]
   \<and> writeFile_result disk_read_only = Write_refused
   \<and> status (fst (server example_config disk_read_only (get_request ''200'') empty_world)) = 404"
  by (simp add: valid_200 server_get handle_get_def superagent_get_def readFile_def
      empty_world_def disk_read_only_def origin_up_def url_200 writeFile_def)

text \<open>
  C1, amended. A GET for a valid key whose file is not in the cache, when the origin
  answers the bytes \<open>b\<close>, is answered 200 with \<open>b\<close> exactly when the write-back
  succeeds (\<^verbatim>\<open>mkdir\<close> and \<^verbatim>\<open>writeFile\<close> both resolve); when the write-back fails the
  answer is 404 \<^verbatim>\<open>{error:"not found (cache and http.cat failed)"}\<close>.
\<close>

theorem get_miss_origin_ok:
  assumes "codeRegex k"
      and "readFile w (fileForCode cfg k) = None"
      and "origin e (HTTP_CAT_URL k) = Some b"
  shows "fst (server cfg e (get_request k) w) =
           (if mkdir_ok e \<and> writeFile_result e = Written then image_response b
            else json_response 404
                   [(''error'', JString ''not found (cache and http.cat failed)'')])"
  using assms
  by (simp add: server_get handle_get_def superagent_get_def writeFile_def
      split: write_result.splits)

theorem get_miss_origin_ok_witness:
  "codeRegex ''200''
   \<and> readFile empty_world (fileForCode example_config ''200'') = None
   \<and> origin origin_up (HTTP_CAT_URL ''200'') = Some [1, 2, 3]
   \<and> fst (server example_config origin_up (get_request ''200'') empty_world)
       = image_response [1, 2, 3]"
proof -
  have r: "readFile empty_world (fileForCode example_config ''200'') = None"
    by (simp add: readFile_def empty_world_def)
  have f: "origin origin_up (HTTP_CAT_URL ''200'') = Some [1, 2, 3]"
    by (simp add: origin_up_def url_200)
  show ?thesis
    using valid_200 r f get_miss_origin_ok[OF valid_200 r f]
    by (simp add: origin_up_def)
qed

text \<open>
  C7, as stated, fails for OPTIONS: line 56 answers every OPTIONS request with 204 before
  any route is looked at, so OPTIONS on \<^verbatim>\<open>/200\<close> is not answered 405.
\<close>

theorem options_counterexample:
  "routeRegex ''/200''
   \<and> ''OPTIONS'' \<notin> {''GET'', ''PUT'', ''DELETE''}
   \<and> status (fst (server example_config origin_down
        \<lparr>http_method = ''OPTIONS'', pathname = ''/200'', chunks = []\<rparr> stocked_world)) = 204"
  by (simp add: route_iff valid_200 server_def)

text \<open>
  C7, amended. On a pathname of the form \<^verbatim>\<open>/<3-digit-code>\<close>, a request whose method is
  not GET, PUT or DELETE is answered 405 \<^verbatim>\<open>{error:"method not allowed"}\<close>, except
  OPTIONS, which is answered 204 with no body; the world is unchanged in both cases.
\<close>

theorem other_methods:
  assumes "routeRegex (pathname req)"
      and "http_method req \<notin> {''GET'', ''PUT'', ''DELETE''}"
  shows "server cfg e req w =
           (if http_method req = ''OPTIONS''
            then (\<lparr>status = 204, headers = cors, body = No_body\<rparr>, w)
            else (json_response 405 [(''error'', JString ''method not allowed'')], w))"
proof (cases "http_method req = ''OPTIONS''")
  case True
  then show ?thesis by (simp add: server_def)
next
  case False
  then show ?thesis
    using assms(2) by (simp add: server_routed[OF assms(1) False])
qed

theorem other_methods_witness:
  "routeRegex ''/200''
   \<and> ''PATCH'' \<notin> {''GET'', ''PUT'', ''DELETE''}
   \<and> server example_config origin_down
        \<lparr>http_method = ''PATCH'', pathname = ''/200'', chunks = []\<rparr> stocked_world
       = (json_response 405 [(''error'', JString ''method not allowed'')], stocked_world)"
proof -
  have r: "routeRegex (pathname \<lparr>http_method = ''PATCH'', pathname = ''/200'', chunks = []\<rparr>)"
    by (simp add: route_iff valid_200)
  have m: "http_method \<lparr>http_method = ''PATCH'', pathname = ''/200'', chunks = []\<rparr>
             \<notin> {''GET'', ''PUT'', ''DELETE''}"
    by simp
  show ?thesis
    using r m other_methods[OF r m, of example_config origin_down stocked_world]
    by simp
qed

text \<open>
  C2. The code does not answer 400 to a request on a key that does not match
  \<^verbatim>\<open>^\d{3}$\<close>: GET, PUT and DELETE on \<^verbatim>\<open>/abc\<close> are answered 404
  \<^verbatim>\<open>{error:"not found"}\<close> by the fallback of lines 142 and 143, and the world is
  untouched. The branch of lines 77 to 80, which answers 400 \<^verbatim>\<open>{error:"bad code"}\<close>,
  stands behind the test of the route at line 75, which lets only a slash and three
  digits through.
\<close>

theorem invalid_key_answered_404:
  "\<not> codeRegex ''abc''
   \<and> request_listener example_config origin_down (incoming ''GET'' ''/abc'' []) stocked_world
       = (Inr (json_response 404 [(''error'', JString ''not found'')]), stocked_world)
   \<and> request_listener example_config origin_down (incoming ''PUT'' ''/abc'' [[1]]) stocked_world
       = (Inr (json_response 404 [(''error'', JString ''not found'')]), stocked_world)
   \<and> request_listener example_config origin_down (incoming ''DELETE'' ''/abc'' []) stocked_world
       = (Inr (json_response 404 [(''error'', JString ''not found'')]), stocked_world)"
proof -
  have d: "decodeURIComponent ''/abc'' = Inr ''/abc''"
    by (rule decode_plain) simp
  show ?thesis
    by (simp add: listener_decoded[OF d] server_def routeRegex_def codeRegex_def digit_def
        numeral_3_eq_3)
qed




text \<open>
  C6, as stated, fails when \<^verbatim>\<open>unlink\<close> rejects on a file that is there: the \<^verbatim>\<open>catch\<close> of
  lines 132 to 135 answers 404 \<^verbatim>\<open>{error:"not found"}\<close> for every rejection, and the file
  is left. On a read-only disk, DELETE of the stored key 200 is such a request.
\<close>

theorem unlink_rejected_counterexample:
  "codeRegex ''200''
   \<and> readFile stocked_world (fileForCode example_config ''200'') = Some [7, 8]
   \<and> server example_config disk_read_only (delete_request ''200'') stocked_world
       = (json_response 404 [(''error'', JString ''not found'')], stocked_world)"
  by (simp add: valid_200 server_delete path_200 handle_delete_def unlink_def readFile_def
      stocked_world_def disk_read_only_def origin_up_def)

text \<open>
  C6, amended. DELETE on a valid key: when the file is there and \<^verbatim>\<open>unlink\<close> resolves,
  the answer is 200 \<^verbatim>\<open>{ok:true, deleted:"<code>.jpg"}\<close>, the file is gone afterwards and
  every other file is as before; when the file is not there, or \<^verbatim>\<open>unlink\<close> rejects, the
  answer is 404 \<^verbatim>\<open>{error:"not found"}\<close> and the world is unchanged.
\<close>

theorem delete_entry:
  assumes "codeRegex k"
  shows "if readFile w (fileForCode cfg k) \<noteq> None \<and> unlink_ok e
         then fst (server cfg e (delete_request k) w)
                = json_response 200 [(''ok'', JBool True), (''deleted'', JString (k @ ''.jpg''))]
            \<and> readFile (snd (server cfg e (delete_request k) w)) (fileForCode cfg k) = None
            \<and> map_of (files (snd (server cfg e (delete_request k) w)))
                = (map_of (files w)) (fileForCode cfg k := None)
         else server cfg e (delete_request k) w
                = (json_response 404 [(''error'', JString ''not found'')], w)"
  using assms
  by (auto simp: server_delete handle_delete_def unlink_def readFile_def delete_conv'
      split: option.splits)

theorem delete_entry_witness:
  "codeRegex ''200''
   \<and> server example_config origin_down (delete_request ''200'') stocked_world
       = (json_response 200 [(''ok'', JBool True), (''deleted'', JString ''200.jpg'')],
          empty_world)
   \<and> server example_config origin_down (delete_request ''200'') empty_world
       = (json_response 404 [(''error'', JString ''not found'')], empty_world)"
proof -
  have a: "readFile stocked_world (fileForCode example_config ''200'') \<noteq> None"
    by (simp add: path_200 readFile_def stocked_world_def)
  have b: "readFile empty_world (fileForCode example_config ''200'') = None"
    by (simp add: readFile_def empty_world_def)
  have u: "unlink_ok origin_down"
    by (simp add: origin_down_def)
  have c: "snd (server example_config origin_down (delete_request ''200'') stocked_world)
             = empty_world"
    by (simp add: server_delete valid_200 handle_delete_def unlink_def path_200
        stocked_world_def empty_world_def origin_down_def)
  show ?thesis
    using valid_200 a b c u
      delete_entry[OF valid_200, of stocked_world example_config origin_down]
      delete_entry[OF valid_200, of empty_world example_config origin_down]
    by (simp add: prod_eq_iff)
qed




end
